theory Spec2Isabelle
  imports Main
begin

section \<open>Python values and exceptions\<close>

text \<open>
  The program is a single Python module, \<^verbatim>\<open>Kichwa_info_Reconociendonos.py\<close>. It holds a
  literal nested dictionary of texts (\<^verbatim>\<open>load_kichwa_data\<close>), a dictionary of colour
  tokens (\<^verbatim>\<open>configure_styles\<close>) and one method per notebook tab that reads both and
  creates Tk widgets.

  A Python \<^verbatim>\<open>str\<close> is modelled as a \<^typ>\<open>string\<close> holding its UTF-8 bytes. The only
  string operations of the program are concatenation, \<^verbatim>\<open>split(' ')\<close> and
  \<^verbatim>\<open>strip('()')\<close>, whose separators are ASCII, so they act on the bytes exactly as
  they act on the code points. The letters outside ASCII that the source uses are named
  once.
\<close>

definition a_acute :: string where "a_acute = [CHR 0xC3, CHR 0xA1]"
definition e_acute :: string where "e_acute = [CHR 0xC3, CHR 0xA9]"
definition i_acute :: string where "i_acute = [CHR 0xC3, CHR 0xAD]"
definition o_acute :: string where "o_acute = [CHR 0xC3, CHR 0xB3]"
definition u_acute :: string where "u_acute = [CHR 0xC3, CHR 0xBA]"
definition n_tilde :: string where "n_tilde = [CHR 0xC3, CHR 0xB1]"
definition u_diaeresis :: string where "u_diaeresis = [CHR 0xC3, CHR 0xBC]"
definition inverted_question :: string where "inverted_question = [CHR 0xC2, CHR 0xBF]"
definition bullet :: string where "bullet = [CHR 0xE2, CHR 0x80, CHR 0xA2]"
definition apostrophe :: string where "apostrophe = [CHR 0x27]"

text \<open>
  The exceptions the program can raise. None is raised explicitly and none is caught: each
  comes from a subscription, an attribute access, an unpacking or a name lookup, and ends
  the start-up. \<open>NotModelled\<close> marks the one place where the model does not compute what
  Python would (see \<open>format\<close>).
\<close>

datatype error =
    KeyError string
  | IndexError
  | AttributeError string
  | TypeError
  | ValueError
  | NameError string
  | NotModelled

text \<open>
  The values of the content literal: strings, lists and dictionaries. A dictionary is an
  association list in insertion order, the order in which \<^verbatim>\<open>items()\<close> iterates.
\<close>

datatype pyval =
    Str string
  | PyList "pyval list"
  | Dict "(string \<times> pyval) list"

text \<open>Sequencing: an exception in \<open>m\<close> skips the rest \<open>f\<close>.\<close>

definition then_do :: "error + 'a \<Rightarrow> ('a \<Rightarrow> error + 'b) \<Rightarrow> error + 'b" where
  "then_do m f = (case m of Inl e \<Rightarrow> Inl e | Inr x \<Rightarrow> f x)"

text \<open>A \<^verbatim>\<open>for\<close> loop whose body creates one widget per element.\<close>

fun for_each :: "('a \<Rightarrow> error + 'b) \<Rightarrow> 'a list \<Rightarrow> error + 'b list" where
  "for_each f [] = Inr []"
| "for_each f (x # xs) =
     then_do (f x) (\<lambda>y. then_do (for_each f xs) (\<lambda>ys. Inr (y # ys)))"

text \<open>
  \<^verbatim>\<open>v[k]\<close> with a string key: a dictionary raises \<^verbatim>\<open>KeyError\<close> on a missing key; a
  string or a list raises \<^verbatim>\<open>TypeError\<close> (their indices must be integers).
\<close>

fun getitem :: "pyval \<Rightarrow> string \<Rightarrow> error + pyval" where
  "getitem (Dict kvs) k = (case map_of kvs k of None \<Rightarrow> Inl (KeyError k) | Some v \<Rightarrow> Inr v)"
| "getitem (PyList xs) k = Inl TypeError"
| "getitem (Str s) k = Inl TypeError"

text \<open>\<^verbatim>\<open>v.items()\<close>: only a dictionary has the method.\<close>

fun items :: "pyval \<Rightarrow> error + (string \<times> pyval) list" where
  "items (Dict kvs) = Inr kvs"
| "items (PyList xs) = Inl (AttributeError ''items'')"
| "items (Str s) = Inl (AttributeError ''items'')"

text \<open>
  \<^verbatim>\<open>for x in v\<close>: the elements of a list, the keys of a dictionary, the characters of a
  string (the bytes, in this model; the program only iterates over lists).
\<close>

fun iterate :: "pyval \<Rightarrow> pyval list" where
  "iterate (PyList xs) = xs"
| "iterate (Dict kvs) = map (\<lambda>kv. Str (fst kv)) kvs"
| "iterate (Str s) = map (\<lambda>c. Str [c]) s"

text \<open>
  The unpacking \<^verbatim>\<open>(spanish, kichwa, pron) = row\<close>: \<^verbatim>\<open>ValueError\<close> unless the row has
  exactly three elements.
\<close>

definition unpack3 :: "pyval \<Rightarrow> error + pyval \<times> pyval \<times> pyval" where
  "unpack3 row = (case iterate row of [a, b, c] \<Rightarrow> Inr (a, b, c) | _ \<Rightarrow> Inl ValueError)"

text \<open>
  The value of \<^verbatim>\<open>{v}\<close> inside an f-string, \<^verbatim>\<open>str(v)\<close>. For a string it is the string.
  For a list or a dictionary Python prints its \<^verbatim>\<open>repr\<close>, which is not modelled: the
  literal content never reaches that case.
\<close>

fun format :: "pyval \<Rightarrow> error + string" where
  "format (Str s) = Inr s"
| "format (PyList xs) = Inl NotModelled"
| "format (Dict kvs) = Inl NotModelled"

text \<open>\<^verbatim>\<open>s.split(c)\<close> for a one-character separator: every occurrence splits, so the
  result has one more part than \<open>s\<close> has separators and is never empty.\<close>

fun py_split :: "char \<Rightarrow> string \<Rightarrow> string list" where
  "py_split c [] = [[]]"
| "py_split c (x # xs) =
     (if x = c then [] # py_split c xs
      else (case py_split c xs of [] \<Rightarrow> [[x]] | w # ws \<Rightarrow> (x # w) # ws))"

text \<open>\<^verbatim>\<open>s.strip(chars)\<close>: drops the leading and the trailing characters that are in
  \<open>chars\<close>.\<close>

definition py_strip :: "string \<Rightarrow> string \<Rightarrow> string" where
  "py_strip chars s =
     rev (dropWhile (\<lambda>c. c \<in> set chars) (rev (dropWhile (\<lambda>c. c \<in> set chars) s)))"

text \<open>\<^verbatim>\<open>xs[i]\<close> for an index \<open>i \<ge> 0\<close>: \<^verbatim>\<open>IndexError\<close> out of range.\<close>

definition index :: "'a list \<Rightarrow> nat \<Rightarrow> error + 'a" where
  "index xs i = (if i < length xs then Inr (xs ! i) else Inl IndexError)"

text \<open>\<^verbatim>\<open>self.name\<close>: \<^verbatim>\<open>AttributeError\<close> while the attribute has not been assigned.\<close>

fun attr :: "string \<Rightarrow> 'a option \<Rightarrow> error + 'a" where
  "attr name None = Inl (AttributeError name)"
| "attr name (Some v) = Inr v"

section \<open>The content store\<close>

text \<open>
  \<^verbatim>\<open>load_kichwa_data\<close> returns a literal. The long texts are named after their path in the
  literal (a number stands for the position of an entry whose key is not an identifier);
  the literal itself follows them.
\<close>

definition informacion_general_introduccion :: string where
  "informacion_general_introduccion =
   ''Los Kichwas constituyen el grupo ind'' @ i_acute @ ''gena m'' @ a_acute @
   ''s numeroso de Ecuador. Son herederos de una rica tradici'' @ o_acute @
   ''n cultural que ha evolucionado desde tiempos precolombinos, fusionando elementos '' @
   ''andinos ancestrales con influencias posteriores. Se caracterizan por mantener viva su '' @
   ''identidad a trav'' @ e_acute @ ''s de su idioma, pr'' @ a_acute @
   ''cticas comunitarias, vestimenta tradicional, artesan'' @ i_acute @ ''as, m'' @ u_acute @
   ''sica y cosmovisi'' @ o_acute @ ''n.''"

definition informacion_general_historia :: string where
  "informacion_general_historia =
   ''Los Kichwas ecuatorianos son descendientes de los pueblos que habitaban la regi'' @
   o_acute @ ''n andina antes de la llegada de los incas y los espa'' @ n_tilde @
   ''oles. Durante el Imperio Inca (siglo XV), muchos grupos ind'' @ i_acute @
   ''genas fueron '' @ apostrophe @ ''kichwaizados'' @ apostrophe @
   '' como parte de la pol'' @ i_acute @ ''tica de unificaci'' @ o_acute @
   ''n cultural. Con la colonizaci'' @ o_acute @ ''n espa'' @ n_tilde @
   ''ola, los Kichwas enfrentaron opresi'' @ o_acute @
   ''n y transformaciones sociales profundas, pero lograron preservar elementos '' @
   ''fundamentales de su cultura. Durante los siglos XX y XXI, han protagonizado importantes '' @
   ''movimientos de reivindicaci'' @ o_acute @ ''n pol'' @ i_acute @ ''tica y cultural.''"

definition informacion_general_distribucion_geografica :: string where
  "informacion_general_distribucion_geografica =
   ''Los pueblos Kichwas se distribuyen principalmente en la regi'' @ o_acute @
   ''n andina (Sierra) y en partes de la Amazon'' @ i_acute @ ''a ecuatoriana. Cada regi'' @
   o_acute @ ''n presenta variaciones culturales espec'' @ i_acute @
   ''ficas que reflejan adaptaciones a diferentes entornos ecol'' @ o_acute @
   ''gicos y procesos hist'' @ o_acute @ ''ricos particulares.''"

definition informacion_general_caracteristicas_culturales_1 :: string where
  "informacion_general_caracteristicas_culturales_1 =
   ''Organizaci'' @ o_acute @
   ''n social basada en comunidades y el ayllu (familia extendida).''"

definition informacion_general_caracteristicas_culturales_2 :: string where
  "informacion_general_caracteristicas_culturales_2 =
   ''Econom'' @ i_acute @
   ''a tradicional centrada en la agricultura, complementada con ganader'' @ i_acute @
   ''a y artesan'' @ i_acute @ ''a.''"

definition informacion_general_caracteristicas_culturales_3 :: string where
  "informacion_general_caracteristicas_culturales_3 =
   ''Pr'' @ a_acute @ ''cticas de reciprocidad y trabajo comunitario (minga).''"

definition informacion_general_caracteristicas_culturales_4 :: string where
  "informacion_general_caracteristicas_culturales_4 =
   ''Vestimenta distintiva que var'' @ i_acute @ ''a seg'' @ u_acute @ ''n la regi'' @
   o_acute @ ''n, con elementos simb'' @ o_acute @ ''licos.''"

definition informacion_general_caracteristicas_culturales_5 :: string where
  "informacion_general_caracteristicas_culturales_5 =
   ''Celebraci'' @ o_acute @ ''n de fiestas vinculadas al calendario agr'' @ i_acute @
   ''cola y religioso.''"

definition regiones_introduccion :: string where
  "regiones_introduccion =
   ''Los Kichwas ecuatorianos se distribuyen en distintas regiones geogr'' @ a_acute @
   ''ficas, cada una con caracter'' @ i_acute @
   ''sticas culturales particulares que reflejan adaptaciones a diferentes entornos ecol'' @
   o_acute @ ''gicos.''"

definition regiones_pueblos_1_descripcion :: string where
  "regiones_pueblos_1_descripcion =
   ''Habitan las provincias andinas desde Imbabura hasta Loja. Se caracterizan por sus '' @
   ''tradiciones agr'' @ i_acute @ ''colas, textiles y cer'' @ a_acute @
   ''micas. Cada comunidad presenta variaciones en vestimenta, dialectos y pr'' @ a_acute @
   ''cticas culturales espec'' @ i_acute @ ''ficas.''"

definition regiones_pueblos_2_descripcion :: string where
  "regiones_pueblos_2_descripcion =
   ''Se encuentran principalmente en las provincias de Napo, Pastaza, Orellana y Sucumb'' @
   i_acute @ ''os. Su cultura refleja una profunda conexi'' @ o_acute @
   ''n con el entorno selv'' @ a_acute @ ''tico, combinando pr'' @ a_acute @
   ''cticas ancestrales con adaptaciones m'' @ a_acute @ ''s recientes.''"

definition idioma_descripcion_general :: string where
  "idioma_descripcion_general =
   ''El Kichwa o Quichua (Runa Shimi - '' @ apostrophe @ ''lengua de la gente'' @
   apostrophe @ '') es una variante del quechua, familia ling'' @ u_diaeresis @ i_acute @
   ''stica que se extiende por varios pa'' @ i_acute @
   ''ses andinos. En Ecuador, presenta caracter'' @ i_acute @
   ''sticas propias que lo diferencian de otras variantes regionales.''"

definition idioma_caracteristicas_1 :: string where
  "idioma_caracteristicas_1 =
   ''Lengua aglutinante donde las palabras se forman agregando sufijos a las ra'' @ i_acute @
   ''ces. El orden b'' @ a_acute @ ''sico de la oraci'' @ o_acute @
   ''n es Sujeto-Objeto-Verbo.''"

definition idioma_caracteristicas_2 :: string where
  "idioma_caracteristicas_2 =
   ''Sistema voc'' @ a_acute @
   ''lico de tres fonemas (a, i, u) y consonantes que incluyen sonidos particulares como el '' @
   ''sonido /sh/ y consonantes glotalizadas.''"

definition idioma_caracteristicas_3 :: string where
  "idioma_caracteristicas_3 =
   ''Rico en t'' @ e_acute @
   ''rminos relacionados con la naturaleza, agricultura y relaciones sociales. Incluye '' @
   ''numerosos conceptos que reflejan su cosmovisi'' @ o_acute @ ''n '' @ u_acute @
   ''nica.''"

definition idioma_variaciones_dialectales :: string where
  "idioma_variaciones_dialectales =
   ''Existen importantes diferencias dialectales entre el Kichwa de la Sierra y el de la '' @
   ''Amazon'' @ i_acute @
   ''a. Incluso dentro de la Sierra, hay variaciones notables entre provincias. El dialecto '' @
   ''de Imbabura, por ejemplo, difiere del hablado en Chimborazo o Ca'' @ n_tilde @ ''ar.''"

definition idioma_estado_actual :: string where
  "idioma_estado_actual =
   ''El Kichwa ecuatoriano es reconocido como idioma oficial de relaci'' @ o_acute @
   ''n intercultural en la Constituci'' @ o_acute @
   ''n de 2008. Sin embargo, enfrenta desaf'' @ i_acute @ ''os para su preservaci'' @
   o_acute @ ''n debido a factores como la discriminaci'' @ o_acute @ ''n hist'' @ o_acute @
   ''rica, la migraci'' @ o_acute @ ''n y la influencia dominante del espa'' @ n_tilde @
   ''ol. Existen iniciativas educativas biling'' @ u_diaeresis @
   ''es y esfuerzos para su revitalizaci'' @ o_acute @
   ''n, incluidos programas de educaci'' @ o_acute @ ''n intercultural biling'' @
   u_diaeresis @ ''e implementados por el Estado y organizaciones ind'' @ i_acute @
   ''genas.''"

definition tradiciones_introduccion :: string where
  "tradiciones_introduccion =
   ''Las tradiciones y costumbres de los pueblos Kichwas reflejan una cosmovisi'' @ o_acute @
   ''n '' @ u_acute @
   ''nica que integra elementos ancestrales con influencias posteriores. Estas pr'' @
   a_acute @
   ''cticas culturales transmiten valores comunitarios y mantienen viva la identidad '' @
   ''colectiva.''"

definition tradiciones_festividades_1 :: string where
  "tradiciones_festividades_1 =
   ''Celebrada en el solsticio de junio, marca el inicio del nuevo a'' @ n_tilde @
   ''o agr'' @ i_acute @ ''cola. Incluye bailes, m'' @ u_acute @
   ''sica, rituales de purificaci'' @ o_acute @
   ''n y agradecimiento a la Pachamama (Madre Tierra) por las cosechas.''"

definition tradiciones_festividades_2 :: string where
  "tradiciones_festividades_2 =
   ''Fiesta del florecimiento celebrada en febrero/marzo. Coincide con el carnaval y est'' @
   a_acute @ '' asociada con el inicio de la floraci'' @ o_acute @ ''n del ma'' @ i_acute @
   ''z.''"

definition tradiciones_festividades_3 :: string where
  "tradiciones_festividades_3 =
   ''Celebrada en septiembre, honra a la fertilidad femenina, la luna y la preparaci'' @
   o_acute @ ''n de la tierra para nuevos cultivos.''"

definition tradiciones_festividades_4 :: string where
  "tradiciones_festividades_4 =
   ''Celebrada en diciembre, marca el solsticio de invierno y la renovaci'' @ o_acute @
   ''n del poder comunal y pol'' @ i_acute @ ''tico.''"

definition tradiciones_vestimenta :: string where
  "tradiciones_vestimenta =
   ''La vestimenta tradicional var'' @ i_acute @ ''a seg'' @ u_acute @ ''n la regi'' @
   o_acute @
   ''n pero mantiene elementos identificativos propios. Los hombres suelen usar poncho, '' @
   ''sombrero y pantal'' @ o_acute @
   ''n, mientras las mujeres visten anaco (falda), blusa bordada, fachalina (chal) y '' @
   ''variedad de accesorios. Cada prenda tiene significados simb'' @ o_acute @
   ''licos relacionados con la identidad, estatus social y conexi'' @ o_acute @
   ''n comunitaria. Los colores y dise'' @ n_tilde @
   ''os transmiten mensajes sobre la procedencia, estado civil y posici'' @ o_acute @
   ''n en la comunidad.''"

definition tradiciones_artesanias_1 :: string where
  "tradiciones_artesanias_1 =
   ''Los textiles Kichwas son reconocidos por sus t'' @ e_acute @ ''cnicas, dise'' @
   n_tilde @
   ''os y simbolismo. Destacan los tejidos de Otavalo, elaborados en telares tradicionales '' @
   ''con motivos geom'' @ e_acute @ ''tricos que representan elementos de su cosmolog'' @
   i_acute @ ''a.''"

definition tradiciones_artesanias_2 :: string where
  "tradiciones_artesanias_2 =
   ''La cer'' @ a_acute @ ''mica Kichwa se caracteriza por dise'' @ n_tilde @
   ''os que incorporan elementos de la naturaleza y s'' @ i_acute @
   ''mbolos ancestrales. Se utiliza tanto para fines utilitarios como ceremoniales.''"

definition tradiciones_musica_danza :: string where
  "tradiciones_musica_danza =
   ''La m'' @ u_acute @ ''sica y danza Kichwa expresan la conexi'' @ o_acute @
   ''n con la naturaleza, ciclos agr'' @ i_acute @
   ''colas y momentos importantes del ciclo vital. G'' @ e_acute @
   ''neros como el sanjuanito, yarav'' @ i_acute @ '' y danzante acompa'' @ n_tilde @
   ''an celebraciones comunitarias y rituales. Los bailes suelen realizarse en c'' @
   i_acute @ ''rculos, representando la concepci'' @ o_acute @ ''n c'' @ i_acute @
   ''clica del tiempo y la vida comunitaria.''"

definition cosmovision_introduccion :: string where
  "cosmovision_introduccion =
   ''La cosmovisi'' @ o_acute @ ''n Kichwa se basa en una comprensi'' @ o_acute @
   ''n del universo como un todo interconectado donde seres humanos, naturaleza y energ'' @
   i_acute @ ''as espirituales coexisten en relaci'' @ o_acute @ ''n rec'' @ i_acute @
   ''proca. Esta visi'' @ o_acute @ ''n del mundo orienta sus pr'' @ a_acute @
   ''cticas culturales, sociales y espirituales.''"

definition cosmovision_principios_fundamentales_1 :: string where
  "cosmovision_principios_fundamentales_1 =
   ''Filosof'' @ i_acute @ ''a de vida que busca la armon'' @ i_acute @
   ''a entre los seres humanos y la naturaleza. Propone un modelo de bienestar colectivo '' @
   ''basado en la reciprocidad y respeto.''"

definition cosmovision_principios_fundamentales_2 :: string where
  "cosmovision_principios_fundamentales_2 =
   ''Principio que establece que todo est'' @ a_acute @
   '' conectado, nada existe aisladamente. Las personas, comunidades, naturaleza y cosmos '' @
   ''forman una red de relaciones interdependientes.''"

definition cosmovision_principios_fundamentales_3 :: string where
  "cosmovision_principios_fundamentales_3 =
   ''Concepto que reconoce que los opuestos no se excluyen sino que se complementan y '' @
   ''necesitan mutuamente. Se refleja en el par hombre-mujer, sol-luna, d'' @ i_acute @
   ''a-noche.''"

definition cosmovision_relacion_naturaleza :: string where
  "cosmovision_relacion_naturaleza =
   ''Para los Kichwas, la naturaleza (Pachamama) es un ser vivo con el que se mantiene una '' @
   ''relaci'' @ o_acute @
   ''n de reciprocidad y respeto. No se considera a la naturaleza como un recurso a '' @
   ''explotar, sino como una madre que sustenta la vida y merece veneraci'' @ o_acute @
   ''n. Antes de tomar de ella, se pide permiso mediante rituales y ofrendas espec'' @
   i_acute @ ''ficas.''"

definition cosmovision_medicina_tradicional :: string where
  "cosmovision_medicina_tradicional =
   ''La medicina Kichwa integra conocimientos bot'' @ a_acute @
   ''nicos, rituales de sanaci'' @ o_acute @ ''n y comprensi'' @ o_acute @
   ''n de las energ'' @ i_acute @
   ''as. Los yachaks (sabios) y parteras cumplen roles fundamentales como mediadores entre '' @
   ''el mundo material y espiritual. Las pr'' @ a_acute @
   ''cticas incluyen el uso de plantas medicinales, limpias energ'' @ e_acute @
   ''ticas y rituales que buscan restaurar el equilibrio entre cuerpo, mente y esp'' @
   i_acute @ ''ritu.''"

definition diseno_cultural_introduccion :: string where
  "diseno_cultural_introduccion =
   ''Los elementos est'' @ e_acute @ ''ticos de la cultura Kichwa reflejan su cosmovisi'' @
   o_acute @ ''n, historia y relaci'' @ o_acute @
   ''n con el entorno. Colores, formas y motivos transmiten significados profundos '' @
   ''relacionados con su identidad cultural.''"

definition diseno_cultural_significado_colores_1 :: string where
  "diseno_cultural_significado_colores_1 =
   ''Representa la tierra, la sangre, la fuerza y la vitalidad. Simboliza el poder y la energ'' @
   i_acute @ ''a de la Pachamama.''"

definition diseno_cultural_significado_colores_2 :: string where
  "diseno_cultural_significado_colores_2 =
   ''Asociado con el sol (Inti), la abundancia, las cosechas y la riqueza espiritual.''"

definition diseno_cultural_significado_colores_3 :: string where
  "diseno_cultural_significado_colores_3 =
   ''Simboliza el agua, el cielo y el espacio. Representa la sabidur'' @ i_acute @
   ''a y el universo.''"

definition diseno_cultural_significado_colores_4 :: string where
  "diseno_cultural_significado_colores_4 =
   ''Representa la naturaleza, las plantas y la renovaci'' @ o_acute @ ''n. S'' @ i_acute @
   ''mbolo de fertilidad y vida.''"

definition diseno_cultural_significado_colores_5 :: string where
  "diseno_cultural_significado_colores_5 =
   ''Asociado con la oscuridad primordial, el misterio y la transformaci'' @ o_acute @
   ''n.''"

definition diseno_cultural_significado_colores_6 :: string where
  "diseno_cultural_significado_colores_6 =
   ''Simboliza la pureza, la claridad y la conexi'' @ o_acute @
   ''n con el mundo espiritual.''"

definition diseno_cultural_chakana :: string where
  "diseno_cultural_chakana =
   ''La chakana (cruz andina) es un s'' @ i_acute @ ''mbolo central en la cosmovisi'' @
   o_acute @ ''n Kichwa. Representa la conexi'' @ o_acute @
   ''n entre los mundos superior e inferior, as'' @ i_acute @
   '' como los cuatro elementos y direcciones. Su dise'' @ n_tilde @
   ''o encarna el principio de ordenamiento del cosmos.''"

definition diseno_cultural_disenos_textiles :: string where
  "diseno_cultural_disenos_textiles =
   ''Los textiles Kichwas incorporan dise'' @ n_tilde @ ''os geom'' @ e_acute @
   ''tricos con significados espec'' @ i_acute @
   ''ficos: espirales (ciclos de vida), zigzags (monta'' @ n_tilde @
   ''as y caminos), rombos (fertilidad), entre otros. Cada motivo transmite aspectos de su '' @
   ''historia, territorio y concepci'' @ o_acute @ ''n del universo.''"

definition load_kichwa_data :: pyval where
  "load_kichwa_data =
  Dict [
    (''informacion_general'', Dict [
      (''introduccion'', Str informacion_general_introduccion),
      (''historia'', Str informacion_general_historia),
      (''distribucion_geografica'', Str informacion_general_distribucion_geografica),
      (''caracteristicas_culturales'', PyList [
        Str informacion_general_caracteristicas_culturales_1,
        Str informacion_general_caracteristicas_culturales_2,
        Str informacion_general_caracteristicas_culturales_3,
        Str informacion_general_caracteristicas_culturales_4,
        Str informacion_general_caracteristicas_culturales_5])]),
    (''regiones'', Dict [
      (''introduccion'', Str regiones_introduccion),
      (''pueblos'', Dict [
        (''Kichwas de la Sierra'', Dict [
          (''descripcion'', Str regiones_pueblos_1_descripcion),
          (''comunidades'', PyList [
            Str ''Otavalo'',
            Str ''Karanki'',
            Str ''Kayambi'',
            Str ''Kitu Kara'',
            Str ''Panzaleo'',
            Str ''Chibuleo'',
            Str ''Salasaka'',
            Str ''Kisapincha'',
            Str ''Tomabela'',
            Str (''Puruh'' @ a_acute),
            Str (''Ka'' @ n_tilde @ ''ari''),
            Str ''Saraguro''])]),
        (''Kichwas de la Amazon'' @ i_acute @ ''a'', Dict [
          (''descripcion'', Str regiones_pueblos_2_descripcion),
          (''comunidades'', PyList [Str ''Napo Runa'', Str ''Pastaza Runa'', Str ''Canelos'', Str ''Quijos''])])])]),
    (''idioma'', Dict [
      (''descripcion_general'', Str idioma_descripcion_general),
      (''caracteristicas'', Dict [
        (''Estructura gramatical'', Str idioma_caracteristicas_1),
        (''Fonolog'' @ i_acute @ ''a'', Str idioma_caracteristicas_2),
        (''L'' @ e_acute @ ''xico'', Str idioma_caracteristicas_3)]),
      (''variaciones_dialectales'', Str idioma_variaciones_dialectales),
      (''vocabulario_basico'', PyList [
        PyList [Str ''Hola'', Str ''Imanalla'', Str ''Imanalla (imanalya)''],
        PyList [Str ''Gracias'', Str ''Yupaychani'', Str ''Yupaychani (yupay-cha-ni)''],
        PyList [Str (''S'' @ i_acute), Str ''Ari'', Str ''Ari''],
        PyList [Str ''No'', Str ''Mana'', Str ''Mana''],
        PyList [Str ''Agua'', Str ''Yaku'', Str ''Yaku''],
        PyList [Str ''Tierra'', Str ''Allpa'', Str ''Alypa''],
        PyList [Str ''Sol'', Str ''Inti'', Str ''Inti''],
        PyList [Str ''Luna'', Str ''Killa'', Str ''Kilya''],
        PyList [Str ''Hombre'', Str ''Kari'', Str ''Kari''],
        PyList [Str ''Mujer'', Str ''Warmi'', Str ''Warmi'']]),
      (''estado_actual'', Str idioma_estado_actual)]),
    (''tradiciones'', Dict [
      (''introduccion'', Str tradiciones_introduccion),
      (''festividades'', Dict [
        (''Inti Raymi (Fiesta del Sol)'', Str tradiciones_festividades_1),
        (''Pawkar Raymi'', Str tradiciones_festividades_2),
        (''Kulla Raymi'', Str tradiciones_festividades_3),
        (''Kapak Raymi'', Str tradiciones_festividades_4)]),
      (''vestimenta'', Str tradiciones_vestimenta),
      (''artesanias'', Dict [
        (''Textiles'', Str tradiciones_artesanias_1),
        (''Cer'' @ a_acute @ ''mica'', Str tradiciones_artesanias_2)]),
      (''musica_danza'', Str tradiciones_musica_danza),
      (''instrumentos_musicales'', PyList [
        Str ''Rondador (flauta de pan)'',
        Str ''Pingullo (flauta vertical)'',
        Str (''Bocina (instrumento de viento hecho de ca'' @ n_tilde @ ''a)''),
        Str ''Chajchas (sonajeros)'',
        Str ''Bombo (tambor)'',
        Str ''Charango (instrumento de cuerda)''])]),
    (''cosmovision'', Dict [
      (''introduccion'', Str cosmovision_introduccion),
      (''principios_fundamentales'', Dict [
        (''Sumak Kawsay (Buen Vivir)'', Str cosmovision_principios_fundamentales_1),
        (''Relacionalidad'', Str cosmovision_principios_fundamentales_2),
        (''Complementariedad'', Str cosmovision_principios_fundamentales_3)]),
      (''relacion_naturaleza'', Str cosmovision_relacion_naturaleza),
      (''medicina_tradicional'', Str cosmovision_medicina_tradicional)]),
    (''diseno_cultural'', Dict [
      (''introduccion'', Str diseno_cultural_introduccion),
      (''significado_colores'', Dict [
        (''Rojo (Puka)'', Str diseno_cultural_significado_colores_1),
        (''Dorado/Amarillo (Killu)'', Str diseno_cultural_significado_colores_2),
        (''Azul (Ankas)'', Str diseno_cultural_significado_colores_3),
        (''Verde (Waylla)'', Str diseno_cultural_significado_colores_4),
        (''Negro (Yana)'', Str diseno_cultural_significado_colores_5),
        (''Blanco (Yurak)'', Str diseno_cultural_significado_colores_6)]),
      (''chakana'', Str diseno_cultural_chakana),
      (''disenos_textiles'', Str diseno_cultural_disenos_textiles)])]"

section \<open>The toolkit, as far as the program writes to it\<close>

text \<open>
  Tk is the program's only collaborator. A widget is modelled by what the program gives it:
  its text, its named style, its font, its colours, and where it is placed (packed after
  its siblings, or put in a grid cell). The options that only space the layout
  (\<^verbatim>\<open>padx\<close>, \<^verbatim>\<open>pady\<close>, \<^verbatim>\<open>anchor\<close>, \<^verbatim>\<open>fill\<close>, \<^verbatim>\<open>expand\<close>, \<^verbatim>\<open>sticky\<close>,
  \<^verbatim>\<open>wraplength\<close>, \<^verbatim>\<open>wrap\<close>) and the scrollbar wiring are left out. Creating a widget
  is taken to succeed.
\<close>

type_synonym font = "string \<times> nat \<times> string list"

datatype placement = Pack | Grid nat nat

text \<open>
  \<open>Label text style font foreground placement\<close>;
  \<open>ScrolledText inserted_text height font background foreground\<close>, read-only and packed;
  \<open>Frame style children\<close>, packed.
\<close>

datatype widget =
    Label pyval "string option" "font option" "string option" placement
  | ScrolledText pyval nat font string string
  | Frame string "widget list"

text \<open>One page of the notebook: the frame added under a title, its canvas and the widgets
  of its scrollable frame, in creation order.\<close>

record tab =
  tab_title :: string
  canvas_bg :: string
  content :: "widget list"

record window =
  win_title :: "string option"
  win_geometry :: "string option"
  win_minsize :: "(nat \<times> nat) option"
  win_bg :: "string option"

text \<open>\<^verbatim>\<open>tk.Tk()\<close>: a window on which nothing has been set yet.\<close>

definition Tk :: window where
  "Tk = \<lparr>win_title = None, win_geometry = None, win_minsize = None, win_bg = None\<rparr>"

datatype optval = Colour string | FontOpt font | Padding "nat list"

text \<open>The calls on \<^verbatim>\<open>self.style\<close>: \<^verbatim>\<open>configure(name, options)\<close> and
  \<^verbatim>\<open>map(name, option=[(state, value)])\<close>.\<close>

datatype style_call =
    Configure string "(string \<times> optval) list"
  | StyleMap string "(string \<times> (string \<times> string) list) list"

text \<open>
  The object \<^verbatim>\<open>self\<close>. An attribute is \<open>None\<close> until the program assigns it.
  \<open>title_label\<close>, \<open>status_label\<close> and \<open>about_button\<close> hold the texts of the three widgets
  that \<^verbatim>\<open>create_widgets\<close> puts around the notebook.
\<close>

record app =
  root :: window
  kichwa_data :: "pyval option"
  style :: "style_call list option"
  colors :: "(string \<times> string) list option"
  title_label :: "string option"
  notebook :: "tab list option"
  status_label :: "string option"
  about_button :: "string option"

section \<open>The style tokens\<close>

text \<open>\<^verbatim>\<open>self.colors[name]\<close>, the only way the program resolves a colour token.\<close>

definition colors_getitem :: "app \<Rightarrow> string \<Rightarrow> error + string" where
  "colors_getitem s name =
     then_do (attr ''colors'' (colors s))
       (\<lambda>d. case map_of d name of None \<Rightarrow> Inl (KeyError name) | Some v \<Rightarrow> Inr v)"

text \<open>The dictionary literals that the two \<^verbatim>\<open>configure_styles\<close> assign to
  \<^verbatim>\<open>self.colors\<close>: the second class definition's, then the first's.\<close>

definition colors_literal :: "(string \<times> string) list" where
  "colors_literal =
     [(''primary'', ''#8B2323''),
      (''secondary'', ''#CD853F''),
      (''accent'', ''#FFD700''),
      (''background'', ''#F5F5DC''),
      (''text'', ''#343e40''),
      (''highlight'', ''#228B22'')]"

definition colors_literal_first :: "(string \<times> string) list" where
  "colors_literal_first =
     [(''primary'', ''#8B2323''),
      (''secondary'', ''#CD853F''),
      (''accent'', ''#FFD700''),
      (''background'', ''#F5F5DC''),
      (''text'', ''#8B2323''),
      (''highlight'', ''#228B22'')]"

text \<open>
  \<^verbatim>\<open>configure_styles\<close> of the second class definition (the one the module keeps, see the
  last section): it assigns \<^verbatim>\<open>self.style\<close> and \<^verbatim>\<open>self.colors\<close>, then configures the ttk
  styles and the window background, reading each colour through \<^verbatim>\<open>self.colors\<close> in the
  order of the source.
\<close>

definition helvetica :: "nat \<Rightarrow> string list \<Rightarrow> font" where
  "helvetica points modifiers = (''Helvetica'', points, modifiers)"

definition configure_styles :: "app \<Rightarrow> error + app" where
  "configure_styles s0 =
    (let s = s0\<lparr>style := Some [], colors := Some colors_literal\<rparr>
     in
     then_do (colors_getitem s ''background'') (\<lambda>frame_bg.
     then_do (colors_getitem s ''background'') (\<lambda>notebook_bg.
     then_do (colors_getitem s ''secondary'') (\<lambda>tab_bg.
     then_do (colors_getitem s ''text'') (\<lambda>tab_fg.
     then_do (colors_getitem s ''primary'') (\<lambda>tab_selected.
     then_do (colors_getitem s ''background'') (\<lambda>label_bg.
     then_do (colors_getitem s ''text'') (\<lambda>label_fg.
     then_do (colors_getitem s ''primary'') (\<lambda>title_fg.
     then_do (colors_getitem s ''secondary'') (\<lambda>subtitle_fg.
     then_do (colors_getitem s ''primary'') (\<lambda>button_bg.
     then_do (colors_getitem s ''background'') (\<lambda>root_bg.
     Inr (s\<lparr>style := Some
            [Configure ''TFrame'' [(''background'', Colour frame_bg)],
             Configure ''TNotebook'' [(''background'', Colour notebook_bg)],
             Configure ''TNotebook.Tab''
               [(''background'', Colour tab_bg), (''foreground'', Colour tab_fg),
                (''padding'', Padding [10, 5])],
             StyleMap ''TNotebook.Tab''
               [(''background'', [(''selected'', tab_selected)]),
                (''foreground'', [(''selected'', ''red'')])],
             Configure ''TLabel''
               [(''background'', Colour label_bg), (''foreground'', Colour label_fg),
                (''font'', FontOpt (helvetica 11 []))],
             Configure ''Title.TLabel''
               [(''font'', FontOpt (helvetica 16 [''bold''])), (''foreground'', Colour title_fg)],
             Configure ''Subtitle.TLabel''
               [(''font'', FontOpt (helvetica 14 [''bold''])),
                (''foreground'', Colour subtitle_fg)],
             Configure ''TButton''
               [(''background'', Colour button_bg), (''foreground'', Colour ''red''),
                (''font'', FontOpt (helvetica 11 []))]],
           root := (root s)\<lparr>win_bg := Some root_bg\<rparr>\<rparr>)))))))))))))"

text \<open>
  \<^verbatim>\<open>configure_styles\<close> of the first class definition. Its dictionary differs in
  \<^verbatim>\<open>'text'\<close>, and its style calls subscript \<^verbatim>\<open>self.colors\<close> with \<^verbatim>\<open>'#8B2323'\<close> and
  \<^verbatim>\<open>'red'\<close>, which are colour values and not keys.
\<close>

definition configure_styles_first :: "app \<Rightarrow> error + app" where
  "configure_styles_first s0 =
    (let s = s0\<lparr>style := Some [], colors := Some colors_literal_first\<rparr>
     in
     then_do (colors_getitem s ''#8B2323'') (\<lambda>frame_bg.
     then_do (colors_getitem s ''#8B2323'') (\<lambda>notebook_bg.
     then_do (colors_getitem s ''secondary'') (\<lambda>tab_bg.
     then_do (colors_getitem s ''red'') (\<lambda>tab_fg.
     then_do (colors_getitem s ''primary'') (\<lambda>tab_selected.
     then_do (colors_getitem s ''#8B2323'') (\<lambda>label_bg.
     then_do (colors_getitem s ''text'') (\<lambda>label_fg.
     then_do (colors_getitem s ''primary'') (\<lambda>title_fg.
     then_do (colors_getitem s ''secondary'') (\<lambda>subtitle_fg.
     then_do (colors_getitem s ''#8B2323'') (\<lambda>button_bg.
     then_do (colors_getitem s ''#8B2323'') (\<lambda>root_bg.
     Inr (s\<lparr>style := Some
            [Configure ''TFrame'' [(''background'', Colour frame_bg)],
             Configure ''TNotebook'' [(''background'', Colour notebook_bg)],
             Configure ''TNotebook.Tab''
               [(''background'', Colour tab_bg), (''foreground'', Colour tab_fg),
                (''padding'', Padding [10, 5])],
             StyleMap ''TNotebook.Tab''
               [(''background'', [(''selected'', tab_selected)]),
                (''foreground'', [(''selected'', ''red'')])],
             Configure ''TLabel''
               [(''background'', Colour label_bg), (''foreground'', Colour label_fg),
                (''font'', FontOpt (helvetica 11 []))],
             Configure ''Title.TLabel''
               [(''font'', FontOpt (helvetica 16 [''bold''])), (''foreground'', Colour title_fg)],
             Configure ''Subtitle.TLabel''
               [(''font'', FontOpt (helvetica 14 [''bold''])),
                (''foreground'', Colour subtitle_fg)],
             Configure ''TButton''
               [(''background'', Colour button_bg), (''foreground'', Colour ''red''),
                (''font'', FontOpt (helvetica 11 []))]],
           root := (root s)\<lparr>win_bg := Some root_bg\<rparr>\<rparr>)))))))))))))"

section \<open>The tab builders\<close>

text \<open>
  The six \<^verbatim>\<open>create_*_tab\<close> methods of the second class definition. Each adds a frame to
  \<^verbatim>\<open>self.notebook\<close> under a title, creates a canvas with the background colour, and fills
  the scrollable frame from \<^verbatim>\<open>self.kichwa_data\<close>. The model builds the page
  (\<open>*_tab\<close>) and appends it to the notebook (\<open>create_*_tab\<close>); lookups are made in the
  order of the source, so the first one that fails decides the exception.

  Four pieces of widget code are repeated verbatim across the methods and are written once
  here.
\<close>

text \<open>A heading: \<^verbatim>\<open>ttk.Label(scrollable_frame, text=t, style='Subtitle.TLabel')\<close>.\<close>

definition subtitle :: "string \<Rightarrow> widget" where
  "subtitle t = Label (Str t) (Some ''Subtitle.TLabel'') None None Pack"

text \<open>A paragraph: a \<^verbatim>\<open>ScrolledText\<close> of the given height that receives the text and is
  then disabled and coloured with the tokens \<^verbatim>\<open>background\<close> and \<^verbatim>\<open>text\<close>.\<close>

definition scrolled_text :: "app \<Rightarrow> pyval \<Rightarrow> nat \<Rightarrow> error + widget" where
  "scrolled_text s inserted height =
     then_do (colors_getitem s ''background'') (\<lambda>bg.
     then_do (colors_getitem s ''text'') (\<lambda>fg.
     Inr (ScrolledText inserted height (helvetica 11 []) bg fg)))"

text \<open>The loop over the items of a dictionary of descriptions (language features,
  festivals, crafts, principles): per item a frame with the key in bold, coloured
  \<^verbatim>\<open>secondary\<close>, above the description.\<close>

definition titled_entries :: "app \<Rightarrow> (string \<times> pyval) list \<Rightarrow> error + widget list" where
  "titled_entries s kvs =
     for_each (\<lambda>(name, desc).
       then_do (colors_getitem s ''secondary'') (\<lambda>fg.
       Inr (Frame ''TFrame''
              [Label (Str name) None (Some (helvetica 11 [''bold''])) (Some fg) Pack,
               Label desc None None None Pack]))) kvs"

text \<open>The two-column grid of bullets (communities, instruments):
  \<^verbatim>\<open>
  row = 0; col = 0
  for x in xs:
      ttk.Label(frame, text=f"\<bullet> {x}").grid(row=row, column=col, ...)
      col += 1
      if col > 1:
          col = 0; row += 1
  \<close>\<close>

fun bullet_grid :: "nat \<Rightarrow> nat \<Rightarrow> pyval list \<Rightarrow> error + widget list" where
  "bullet_grid row col [] = Inr []"
| "bullet_grid row col (x # xs) =
     then_do (format x) (\<lambda>t.
     then_do (if col + 1 > 1 then bullet_grid (row + 1) 0 xs
              else bullet_grid row (col + 1) xs) (\<lambda>ws.
     Inr (Label (Str (bullet @ '' '' @ t)) None None None (Grid row col) # ws)))"

subsection \<open>Overview\<close>

definition overview_tab :: "app \<Rightarrow> error + tab" where
  "overview_tab s =
     then_do (colors_getitem s ''background'') (\<lambda>bg.
     then_do (attr ''kichwa_data'' (kichwa_data s)) (\<lambda>data.
     then_do (getitem data ''informacion_general'') (\<lambda>overview_data.
     then_do (getitem overview_data ''introduccion'') (\<lambda>introduccion.
     then_do (scrolled_text s introduccion 6) (\<lambda>intro_text.
     then_do (getitem overview_data ''historia'') (\<lambda>historia.
     then_do (scrolled_text s historia 8) (\<lambda>history_text.
     then_do (getitem overview_data ''distribucion_geografica'') (\<lambda>distribucion.
     then_do (scrolled_text s distribucion 4) (\<lambda>geography_text.
     then_do (getitem overview_data ''caracteristicas_culturales'') (\<lambda>caracteristicas.
     then_do (for_each (\<lambda>caracteristica.
                then_do (colors_getitem s ''primary'') (\<lambda>fg.
                Inr (Frame ''TFrame''
                       [Label (Str bullet) None None (Some fg) Pack,
                        Label caracteristica None None None Pack])))
              (iterate caracteristicas)) (\<lambda>bullets.
     Inr \<lparr>tab_title = ''Informaci'' @ o_acute @ ''n General'',
          canvas_bg = bg,
          content =
            [subtitle (inverted_question @ ''Qui'' @ e_acute @ ''nes son los Kichwas?''),
             intro_text,
             subtitle ''Historia'',
             history_text,
             subtitle (''Distribuci'' @ o_acute @ ''n Geogr'' @ a_acute @ ''fica''),
             geography_text,
             subtitle (''Caracter'' @ i_acute @ ''sticas Culturales Destacadas'')]
            @ bullets\<rparr>)))))))))))"

definition create_overview_tab :: "app \<Rightarrow> error + app" where
  "create_overview_tab s =
     then_do (attr ''notebook'' (notebook s)) (\<lambda>nb.
     then_do (overview_tab s) (\<lambda>t.
     Inr (s\<lparr>notebook := Some (nb @ [t])\<rparr>)))"

subsection \<open>Regions\<close>

text \<open>The body of the loop over \<^verbatim>\<open>pueblos.items()\<close>.\<close>

definition region_block :: "app \<Rightarrow> string \<times> pyval \<Rightarrow> error + widget" where
  "region_block s = (\<lambda>(region, info).
     then_do (colors_getitem s ''primary'') (\<lambda>fg.
     then_do (getitem info ''descripcion'') (\<lambda>descripcion.
     then_do (scrolled_text s descripcion 4) (\<lambda>desc_text.
     then_do (getitem info ''comunidades'') (\<lambda>comunidades.
     then_do (bullet_grid 0 0 (iterate comunidades)) (\<lambda>communities.
     Inr (Frame ''TFrame''
            [Label (Str region) None (Some (helvetica 13 [''bold''])) (Some fg) Pack,
             desc_text,
             Label (Str ''Comunidades principales:'') None (Some (helvetica 11 [''italic'']))
               None Pack,
             Frame ''TFrame'' communities])))))))"

definition regions_tab :: "app \<Rightarrow> error + tab" where
  "regions_tab s =
     then_do (colors_getitem s ''background'') (\<lambda>bg.
     then_do (attr ''kichwa_data'' (kichwa_data s)) (\<lambda>data.
     then_do (getitem data ''regiones'') (\<lambda>regiones.
     then_do (getitem regiones ''introduccion'') (\<lambda>introduccion.
     then_do (scrolled_text s introduccion 4) (\<lambda>intro_text.
     then_do (attr ''kichwa_data'' (kichwa_data s)) (\<lambda>data.
     then_do (getitem data ''regiones'') (\<lambda>regiones.
     then_do (getitem regiones ''pueblos'') (\<lambda>pueblos.
     then_do (items pueblos) (\<lambda>kvs.
     then_do (for_each (region_block s) kvs) (\<lambda>blocks.
     Inr \<lparr>tab_title = ''Regiones'',
          canvas_bg = bg,
          content =
            [subtitle (''Pueblos Kichwas por Regiones Geogr'' @ a_acute @ ''ficas''),
             intro_text]
            @ blocks\<rparr>))))))))))"

definition create_regions_tab :: "app \<Rightarrow> error + app" where
  "create_regions_tab s =
     then_do (attr ''notebook'' (notebook s)) (\<lambda>nb.
     then_do (regions_tab s) (\<lambda>t.
     Inr (s\<lparr>notebook := Some (nb @ [t])\<rparr>)))"

subsection \<open>Language\<close>

text \<open>
  The vocabulary table: a frame whose grid has the three bold headers in row 0 and, for the
  \<open>i\<close>-th row of the data (from 0), its three entries in row \<open>i + 1\<close>:
  \<^verbatim>\<open>for i, (spanish, kichwa, pron) in enumerate(lang_data['vocabulario_basico'])\<close>.
\<close>

definition vocabulary_headers :: "widget list" where
  "vocabulary_headers =
     [Label (Str (''Espa'' @ n_tilde @ ''ol'')) None (Some (helvetica 11 [''bold''])) None
        (Grid 0 0),
      Label (Str ''Kichwa'') None (Some (helvetica 11 [''bold''])) None (Grid 0 1),
      Label (Str (''Pronunciaci'' @ o_acute @ ''n'')) None (Some (helvetica 11 [''bold''])) None
        (Grid 0 2)]"

definition vocabulary_row :: "nat \<times> pyval \<Rightarrow> error + widget list" where
  "vocabulary_row = (\<lambda>(i, row).
     then_do (unpack3 row) (\<lambda>(spanish, kichwa, pron).
     Inr [Label spanish None None None (Grid (i + 1) 0),
          Label kichwa None None None (Grid (i + 1) 1),
          Label pron None None None (Grid (i + 1) 2)]))"

definition vocabulary_table :: "pyval \<Rightarrow> error + widget" where
  "vocabulary_table lang_data =
     then_do (getitem lang_data ''vocabulario_basico'') (\<lambda>vocabulario.
     then_do (for_each vocabulary_row (enumerate 0 (iterate vocabulario))) (\<lambda>rows.
     Inr (Frame ''TFrame'' (vocabulary_headers @ concat rows))))"

definition language_tab :: "app \<Rightarrow> error + tab" where
  "language_tab s =
     then_do (colors_getitem s ''background'') (\<lambda>bg.
     then_do (attr ''kichwa_data'' (kichwa_data s)) (\<lambda>data.
     then_do (getitem data ''idioma'') (\<lambda>lang_data.
     then_do (getitem lang_data ''descripcion_general'') (\<lambda>descripcion.
     then_do (scrolled_text s descripcion 5) (\<lambda>general_text.
     then_do (getitem lang_data ''caracteristicas'') (\<lambda>caracteristicas.
     then_do (items caracteristicas) (\<lambda>kvs.
     then_do (titled_entries s kvs) (\<lambda>features.
     then_do (vocabulary_table lang_data) (\<lambda>vocab_frame.
     then_do (getitem lang_data ''estado_actual'') (\<lambda>estado.
     then_do (scrolled_text s estado 6) (\<lambda>status_text.
     then_do (getitem lang_data ''variaciones_dialectales'') (\<lambda>variaciones.
     then_do (scrolled_text s variaciones 4) (\<lambda>dialect_text.
     Inr \<lparr>tab_title = ''Idioma'',
          canvas_bg = bg,
          content =
            [subtitle ''Kichwa Ecuatoriano (Runa Shimi)'',
             general_text,
             subtitle (''Caracter'' @ i_acute @ ''sticas Ling'' @ u_diaeresis @ i_acute @
                       ''sticas'')]
            @ features @
            [subtitle (''Vocabulario B'' @ a_acute @ ''sico''),
             vocab_frame,
             subtitle ''Estado Actual del Idioma'',
             status_text,
             subtitle ''Variaciones Dialectales'',
             dialect_text]\<rparr>)))))))))))))"

definition create_language_tab :: "app \<Rightarrow> error + app" where
  "create_language_tab s =
     then_do (attr ''notebook'' (notebook s)) (\<lambda>nb.
     then_do (language_tab s) (\<lambda>t.
     Inr (s\<lparr>notebook := Some (nb @ [t])\<rparr>)))"

subsection \<open>Traditions\<close>

definition traditions_tab :: "app \<Rightarrow> error + tab" where
  "traditions_tab s =
     then_do (colors_getitem s ''background'') (\<lambda>bg.
     then_do (attr ''kichwa_data'' (kichwa_data s)) (\<lambda>data.
     then_do (getitem data ''tradiciones'') (\<lambda>trad_data.
     then_do (getitem trad_data ''introduccion'') (\<lambda>introduccion.
     then_do (scrolled_text s introduccion 4) (\<lambda>intro_text.
     then_do (getitem trad_data ''festividades'') (\<lambda>festividades.
     then_do (items festividades) (\<lambda>fest_kvs.
     then_do (titled_entries s fest_kvs) (\<lambda>festivals.
     then_do (getitem trad_data ''vestimenta'') (\<lambda>vestimenta.
     then_do (scrolled_text s vestimenta 6) (\<lambda>clothing_text.
     then_do (getitem trad_data ''artesanias'') (\<lambda>artesanias.
     then_do (items artesanias) (\<lambda>craft_kvs.
     then_do (titled_entries s craft_kvs) (\<lambda>crafts.
     then_do (getitem trad_data ''musica_danza'') (\<lambda>musica.
     then_do (scrolled_text s musica 5) (\<lambda>music_text.
     then_do (getitem trad_data ''instrumentos_musicales'') (\<lambda>instrumentos.
     then_do (bullet_grid 0 0 (iterate instrumentos)) (\<lambda>instruments.
     Inr \<lparr>tab_title = ''Tradiciones'',
          canvas_bg = bg,
          content =
            [subtitle ''Tradiciones y Costumbres'',
             intro_text,
             subtitle ''Principales Festividades'']
            @ festivals @
            [subtitle ''Vestimenta Tradicional'',
             clothing_text,
             subtitle (''Artesan'' @ i_acute @ ''as'')]
            @ crafts @
            [subtitle (''M'' @ u_acute @ ''sica y Danza''),
             music_text,
             Label (Str ''Instrumentos Musicales Tradicionales'') None
               (Some (helvetica 11 [''bold''])) None Pack,
             Frame ''TFrame'' instruments]\<rparr>)))))))))))))))))"

definition create_traditions_tab :: "app \<Rightarrow> error + app" where
  "create_traditions_tab s =
     then_do (attr ''notebook'' (notebook s)) (\<lambda>nb.
     then_do (traditions_tab s) (\<lambda>t.
     Inr (s\<lparr>notebook := Some (nb @ [t])\<rparr>)))"

subsection \<open>Worldview\<close>

definition worldview_tab :: "app \<Rightarrow> error + tab" where
  "worldview_tab s =
     then_do (colors_getitem s ''background'') (\<lambda>bg.
     then_do (attr ''kichwa_data'' (kichwa_data s)) (\<lambda>data.
     then_do (getitem data ''cosmovision'') (\<lambda>cosmo_data.
     then_do (getitem cosmo_data ''introduccion'') (\<lambda>introduccion.
     then_do (scrolled_text s introduccion 4) (\<lambda>intro_text.
     then_do (getitem cosmo_data ''principios_fundamentales'') (\<lambda>principios.
     then_do (items principios) (\<lambda>kvs.
     then_do (titled_entries s kvs) (\<lambda>principles.
     then_do (getitem cosmo_data ''relacion_naturaleza'') (\<lambda>relacion.
     then_do (scrolled_text s relacion 6) (\<lambda>nature_text.
     then_do (getitem cosmo_data ''medicina_tradicional'') (\<lambda>medicina.
     then_do (scrolled_text s medicina 6) (\<lambda>medicine_text.
     Inr \<lparr>tab_title = ''Cosmovisi'' @ o_acute @ ''n'',
          canvas_bg = bg,
          content =
            [subtitle (''Cosmovisi'' @ o_acute @ ''n Kichwa''),
             intro_text,
             subtitle ''Principios Fundamentales'']
            @ principles @
            [subtitle (''Relaci'' @ o_acute @ ''n con la Naturaleza''),
             nature_text,
             subtitle ''Medicina Tradicional'',
             medicine_text]\<rparr>))))))))))))"

definition create_worldview_tab :: "app \<Rightarrow> error + app" where
  "create_worldview_tab s =
     then_do (attr ''notebook'' (notebook s)) (\<lambda>nb.
     then_do (worldview_tab s) (\<lambda>t.
     Inr (s\<lparr>notebook := Some (nb @ [t])\<rparr>)))"

subsection \<open>Cultural design\<close>

text \<open>
  The two names of a colour are parsed out of its key:
  \<^verbatim>\<open>color_name = color.split(' ')[0]\<close> and
  \<^verbatim>\<open>kichwa_name = color.split(' ')[1].strip('()')\<close>.
\<close>

definition color_names :: "string \<Rightarrow> error + string \<times> string" where
  "color_names color =
     then_do (index (py_split CHR '' '' color) 0) (\<lambda>color_name.
     then_do (index (py_split CHR '' '' color) 1) (\<lambda>second.
     Inr (color_name, py_strip ''()'' second)))"

text \<open>The body of the loop over \<^verbatim>\<open>significado_colores.items()\<close>.\<close>

definition color_block :: "app \<Rightarrow> string \<times> pyval \<Rightarrow> error + widget" where
  "color_block s = (\<lambda>(color, meaning).
     then_do (color_names color) (\<lambda>(color_name, kichwa_name).
     then_do (colors_getitem s ''secondary'') (\<lambda>fg.
     Inr (Frame ''TFrame''
            [Label (Str (color_name @ '' - '' @ kichwa_name)) None
               (Some (helvetica 11 [''bold''])) (Some fg) Pack,
             Label meaning None None None Pack]))))"

definition design_tab :: "app \<Rightarrow> error + tab" where
  "design_tab s =
     then_do (colors_getitem s ''background'') (\<lambda>bg.
     then_do (attr ''kichwa_data'' (kichwa_data s)) (\<lambda>data.
     then_do (getitem data ''diseno_cultural'') (\<lambda>design_data.
     then_do (getitem design_data ''introduccion'') (\<lambda>introduccion.
     then_do (scrolled_text s introduccion 4) (\<lambda>intro_text.
     then_do (getitem design_data ''significado_colores'') (\<lambda>significado.
     then_do (items significado) (\<lambda>kvs.
     then_do (for_each (color_block s) kvs) (\<lambda>color_blocks.
     then_do (getitem design_data ''chakana'') (\<lambda>chakana.
     then_do (scrolled_text s chakana 4) (\<lambda>chakana_text.
     then_do (getitem design_data ''disenos_textiles'') (\<lambda>disenos.
     then_do (scrolled_text s disenos 4) (\<lambda>textile_text.
     Inr \<lparr>tab_title = ''Dise'' @ n_tilde @ ''o Cultural'',
          canvas_bg = bg,
          content =
            [subtitle (''Elementos de Dise'' @ n_tilde @ ''o Cultural''),
             intro_text,
             subtitle ''Significado de los Colores'']
            @ color_blocks @
            [subtitle ''La Chakana (Cruz Andina)'',
             chakana_text,
             subtitle (''Dise'' @ n_tilde @ ''os Textiles''),
             textile_text]\<rparr>))))))))))))"

definition create_design_tab :: "app \<Rightarrow> error + app" where
  "create_design_tab s =
     then_do (attr ''notebook'' (notebook s)) (\<lambda>nb.
     then_do (design_tab s) (\<lambda>t.
     Inr (s\<lparr>notebook := Some (nb @ [t])\<rparr>)))"

section \<open>Start-up\<close>

text \<open>
  \<^verbatim>\<open>create_widgets\<close> of the second class definition: the title, a new empty notebook, the
  tab builders in the order of the source, then the status bar. The date that
  \<^verbatim>\<open>datetime.now()\<close> gives is the parameter \<open>today\<close>, already formatted.
\<close>

definition create_widgets :: "string \<Rightarrow> app \<Rightarrow> error + app" where
  "create_widgets today s0 =
     then_do (create_overview_tab
                (s0\<lparr>title_label := Some ''Pueblo Kichwa del Ecuador'', notebook := Some []\<rparr>))
       (\<lambda>s1.
     then_do (create_regions_tab s1) (\<lambda>s2.
     then_do (create_language_tab s2) (\<lambda>s3.
     then_do (create_traditions_tab s3) (\<lambda>s4.
     then_do (create_worldview_tab s4) (\<lambda>s5.
     then_do (create_design_tab s5) (\<lambda>s6.
     Inr (s6\<lparr>status_label := Some
                 (''Desarrollado para dise'' @ n_tilde @
                  ''o culturalmente sensible | Fecha: '' @ today),
               about_button := Some ''Acerca de''\<rparr>)))))))"

text \<open>\<^verbatim>\<open>__init__\<close> of the second class definition.\<close>

definition KichwaInfoSystem_init :: "string \<Rightarrow> window \<Rightarrow> error + app" where
  "KichwaInfoSystem_init today w =
     then_do (configure_styles
                \<lparr>root = w\<lparr>win_title := Some (''Sistema de Informaci'' @ o_acute @
                                               ''n - Kichwas de Ecuador''),
                           win_geometry := Some ''900x600'',
                           win_minsize := Some (800, 500)\<rparr>,
                 kichwa_data = Some load_kichwa_data,
                 style = None, colors = None, title_label = None, notebook = None,
                 status_label = None, about_button = None\<rparr>)
       (create_widgets today)"

text \<open>
  The first class definition. Its body defines the methods listed in \<open>first_methods\<close> and
  no other. Its \<^verbatim>\<open>__init__\<close> sets the window's title, geometry
  (\<^verbatim>\<open>1000x700\<close>) and minimum size, and then calls \<^verbatim>\<open>self.load_kichwa_data()\<close>: as the class
  has no such attribute, the call raises \<^verbatim>\<open>AttributeError\<close> and the statements after it
  (\<^verbatim>\<open>configure_styles\<close>, \<^verbatim>\<open>create_widgets\<close>) are not reached. What a
  \<^verbatim>\<open>load_kichwa_data\<close> of the first class would return is not in the source.
\<close>

definition first_methods :: "string list" where
  "first_methods =
     [''__init__'', ''configure_styles'', ''create_widgets'', ''create_overview_tab'',
      ''create_regions_tab'', ''create_language_tab'', ''create_traditions_tab'',
      ''create_worldview_tab'']"

definition KichwaInfoSystem_first_init :: "window \<Rightarrow> error + app" where
  "KichwaInfoSystem_first_init w =
     (if ''load_kichwa_data'' \<in> set first_methods then Inl NotModelled
      else Inl (AttributeError ''load_kichwa_data''))"

text \<open>
  The module executes two \<^verbatim>\<open>class KichwaInfoSystem\<close> statements in turn; each binds the
  global name to the class it creates. \<^verbatim>\<open>main\<close> looks the name up when it is called, after
  both, and constructs that class on a new window. The imports at the top of the module are
  taken to succeed, and \<^verbatim>\<open>root.mainloop()\<close>, which hands control to the toolkit until
  the window is closed, is not modelled.
\<close>

datatype class_def = First | Second

definition module_globals :: "string \<rightharpoonup> class_def" where
  "module_globals = (Map.empty(''KichwaInfoSystem'' \<mapsto> First))(''KichwaInfoSystem'' \<mapsto> Second)"

definition main :: "string \<Rightarrow> error + app" where
  "main today =
     (case module_globals ''KichwaInfoSystem'' of
        None \<Rightarrow> Inl (NameError ''KichwaInfoSystem'')
      | Some First \<Rightarrow> KichwaInfoSystem_first_init Tk
      | Some Second \<Rightarrow> KichwaInfoSystem_init today Tk)"

section \<open>Observations used in the statements\<close>

text \<open>The titles of the notebook's pages, in the order in which they were added.\<close>

definition tab_titles :: "app \<Rightarrow> string list" where
  "tab_titles s = (case notebook s of None \<Rightarrow> [] | Some nb \<Rightarrow> map tab_title nb)"

text \<open>The keys of a dictionary, and the entries of a topic (its sections): both are empty
  for a value that is not a dictionary.\<close>

fun dict_keys :: "pyval \<Rightarrow> string list" where
  "dict_keys (Dict kvs) = map fst kvs"
| "dict_keys (PyList xs) = []"
| "dict_keys (Str s) = []"

fun sections :: "pyval \<Rightarrow> (string \<times> pyval) list" where
  "sections (Dict kvs) = kvs"
| "sections (PyList xs) = []"
| "sections (Str s) = []"

text \<open>The widgets inside a frame, and the texts of the labels that a list of widgets puts
  in one row of the grid, in creation order (which is the column order in this program).\<close>

fun children :: "widget \<Rightarrow> widget list" where
  "children (Frame st ws) = ws"
| "children (Label t st f fg pl) = []"
| "children (ScrolledText t h f bg fg) = []"

fun grid_row :: "nat \<Rightarrow> widget list \<Rightarrow> pyval list" where
  "grid_row r [] = []"
| "grid_row r (Label t st f fg (Grid r' c) # ws) =
     (if r' = r then t # grid_row r ws else grid_row r ws)"
| "grid_row r (w # ws) = grid_row r ws"

text \<open>Two expressions of the tab builders, evaluated on the content literal:
  \<^verbatim>\<open>kichwa_data['idioma']['vocabulario_basico']\<close> and
  \<^verbatim>\<open>kichwa_data['diseno_cultural']['significado_colores'].items()\<close>.\<close>

definition vocabulario_basico :: "error + pyval" where
  "vocabulario_basico =
     then_do (getitem load_kichwa_data ''idioma'') (\<lambda>lang_data.
     getitem lang_data ''vocabulario_basico'')"

definition significado_colores :: "error + (string \<times> pyval) list" where
  "significado_colores =
     then_do (getitem load_kichwa_data ''diseno_cultural'') (\<lambda>design_data.
     then_do (getitem design_data ''significado_colores'') items)"

text \<open>
  A subscription reads: evaluating \<^verbatim>\<open>self.kichwa_data[key]\<close> or
  \<^verbatim>\<open>self.colors[name]\<close> gives a value or raises, and leaves the object as it was. The
  next two functions return the object along with the result, so that what a later
  lookup sees can be stated; the third makes \<open>n\<close> lookups of the same token in a row.
\<close>

definition kichwa_data_getitem :: "app \<Rightarrow> string \<Rightarrow> (error + pyval) \<times> app" where
  "kichwa_data_getitem s key =
     (then_do (attr ''kichwa_data'' (kichwa_data s)) (\<lambda>data. getitem data key), s)"

definition colors_read :: "app \<Rightarrow> string \<Rightarrow> (error + string) \<times> app" where
  "colors_read s name = (colors_getitem s name, s)"

fun colors_read_repeated :: "nat \<Rightarrow> app \<Rightarrow> string \<Rightarrow> (error + string) list \<times> app" where
  "colors_read_repeated 0 s name = ([], s)"
| "colors_read_repeated (Suc n) s name =
     (case colors_read s name of (r, s') \<Rightarrow>
        (case colors_read_repeated n s' name of (rs, s'') \<Rightarrow> (r # rs, s'')))"

text \<open>The vocabulary frame that \<^verbatim>\<open>create_language_tab\<close> builds from the content literal.\<close>

definition vocabulary_frame :: "error + widget" where
  "vocabulary_frame = then_do (getitem load_kichwa_data ''idioma'') vocabulary_table"

text \<open>
  An object as a tab builder finds it at start-up: the content loaded, the colour tokens
  of the second \<^verbatim>\<open>configure_styles\<close> assigned, and a new notebook without pages, on the
  window \<open>w\<close>.
\<close>

definition fresh_object :: "window \<Rightarrow> app" where
  "fresh_object w =
     \<lparr>root = w, kichwa_data = Some load_kichwa_data, style = None,
      colors = Some colors_literal, title_label = None, notebook = Some [],
      status_label = None, about_button = None\<rparr>"

section \<open>Evaluation lemmas\<close>

lemma then_do_Inr [simp]: "then_do (Inr x) f = f x"
  by (simp add: then_do_def)

lemma then_do_Inl [simp]: "then_do (Inl e) f = Inl e"
  by (simp add: then_do_def)

lemma colors_getitem_literal:
  "colors s = Some colors_literal \<Longrightarrow>
   colors_getitem s name =
     (if name = ''primary'' then Inr ''#8B2323''
      else if name = ''secondary'' then Inr ''#CD853F''
      else if name = ''accent'' then Inr ''#FFD700''
      else if name = ''background'' then Inr ''#F5F5DC''
      else if name = ''text'' then Inr ''#343e40''
      else if name = ''highlight'' then Inr ''#228B22''
      else Inl (KeyError name))"
  by (simp add: colors_getitem_def colors_literal_def)

lemma configure_styles_fields:
  "\<exists>s'. configure_styles s = Inr s' \<and> colors s' = Some colors_literal \<and>
        kichwa_data s' = kichwa_data s \<and> notebook s' = notebook s"
  by (simp add: configure_styles_def Let_def colors_getitem_literal)

lemma significado_colores_eval:
  "significado_colores = Inr
     [(''Rojo (Puka)'', Str diseno_cultural_significado_colores_1),
      (''Dorado/Amarillo (Killu)'', Str diseno_cultural_significado_colores_2),
      (''Azul (Ankas)'', Str diseno_cultural_significado_colores_3),
      (''Verde (Waylla)'', Str diseno_cultural_significado_colores_4),
      (''Negro (Yana)'', Str diseno_cultural_significado_colores_5),
      (''Blanco (Yurak)'', Str diseno_cultural_significado_colores_6)]"
  by (simp add: significado_colores_def load_kichwa_data_def)

section \<open>Lemmas about the start-up\<close>

lemma getitem_in_keys: "getitem d k = Inr t \<Longrightarrow> k \<in> set (dict_keys d)"
  by (cases d) (auto split: option.splits dest!: map_of_SomeD intro: rev_image_eqI)

lemmas builder_helpers = colors_getitem_def scrolled_text_def titled_entries_def
  region_block_def color_block_def

lemma overview_tab_reads:
  "kichwa_data s1 = kichwa_data s2 \<Longrightarrow> colors s1 = colors s2 \<Longrightarrow> overview_tab s1 = overview_tab s2"
  by (simp add: overview_tab_def builder_helpers)

lemma regions_tab_reads:
  "kichwa_data s1 = kichwa_data s2 \<Longrightarrow> colors s1 = colors s2 \<Longrightarrow> regions_tab s1 = regions_tab s2"
  by (simp add: regions_tab_def builder_helpers)

lemma language_tab_reads:
  "kichwa_data s1 = kichwa_data s2 \<Longrightarrow> colors s1 = colors s2 \<Longrightarrow> language_tab s1 = language_tab s2"
  by (simp add: language_tab_def builder_helpers)

lemma traditions_tab_reads:
  "kichwa_data s1 = kichwa_data s2 \<Longrightarrow> colors s1 = colors s2 \<Longrightarrow> traditions_tab s1 = traditions_tab s2"
  by (simp add: traditions_tab_def builder_helpers)

lemma worldview_tab_reads:
  "kichwa_data s1 = kichwa_data s2 \<Longrightarrow> colors s1 = colors s2 \<Longrightarrow> worldview_tab s1 = worldview_tab s2"
  by (simp add: worldview_tab_def builder_helpers)

lemma design_tab_reads:
  "kichwa_data s1 = kichwa_data s2 \<Longrightarrow> colors s1 = colors s2 \<Longrightarrow> design_tab s1 = design_tab s2"
  by (simp add: design_tab_def builder_helpers)

lemma overview_tab_ok:
  assumes "kichwa_data s = Some load_kichwa_data" "colors s = Some colors_literal"
  shows "\<exists>ws. overview_tab s =
      Inr \<lparr>tab_title = ''Informaci'' @ o_acute @ ''n General'', canvas_bg = ''#F5F5DC'', content = ws\<rparr>"
  using assms
  by (simp add: overview_tab_def colors_getitem_literal load_kichwa_data_def scrolled_text_def)

lemma regions_tab_ok:
  assumes "kichwa_data s = Some load_kichwa_data" "colors s = Some colors_literal"
  shows "\<exists>ws. regions_tab s =
      Inr \<lparr>tab_title = ''Regiones'', canvas_bg = ''#F5F5DC'', content = ws\<rparr>"
  using assms
  by (simp add: regions_tab_def colors_getitem_literal load_kichwa_data_def scrolled_text_def
      region_block_def)

lemma language_tab_ok:
  assumes "kichwa_data s = Some load_kichwa_data" "colors s = Some colors_literal"
  shows "\<exists>ws. language_tab s =
      Inr \<lparr>tab_title = ''Idioma'', canvas_bg = ''#F5F5DC'', content = ws\<rparr>"
  using assms
  by (simp add: language_tab_def colors_getitem_literal load_kichwa_data_def scrolled_text_def
      titled_entries_def vocabulary_table_def vocabulary_row_def unpack3_def)

lemma traditions_tab_ok:
  assumes "kichwa_data s = Some load_kichwa_data" "colors s = Some colors_literal"
  shows "\<exists>ws. traditions_tab s =
      Inr \<lparr>tab_title = ''Tradiciones'', canvas_bg = ''#F5F5DC'', content = ws\<rparr>"
  using assms
  by (simp add: traditions_tab_def colors_getitem_literal load_kichwa_data_def scrolled_text_def
      titled_entries_def)

lemma worldview_tab_ok:
  assumes "kichwa_data s = Some load_kichwa_data" "colors s = Some colors_literal"
  shows "\<exists>ws. worldview_tab s =
      Inr \<lparr>tab_title = ''Cosmovisi'' @ o_acute @ ''n'', canvas_bg = ''#F5F5DC'', content = ws\<rparr>"
  using assms
  by (simp add: worldview_tab_def colors_getitem_literal load_kichwa_data_def scrolled_text_def
      titled_entries_def)

lemma design_tab_ok:
  assumes "kichwa_data s = Some load_kichwa_data" "colors s = Some colors_literal"
  shows "\<exists>ws. design_tab s =
      Inr \<lparr>tab_title = ''Dise'' @ n_tilde @ ''o Cultural'', canvas_bg = ''#F5F5DC'', content = ws\<rparr>"
  using assms
  by (simp add: design_tab_def colors_getitem_literal load_kichwa_data_def scrolled_text_def
      color_block_def color_names_def index_def py_strip_def)

lemma create_widgets_ok:
  assumes d: "kichwa_data s = Some load_kichwa_data" and c: "colors s = Some colors_literal"
  shows "\<exists>t1 t2 t3 t4 t5 t6.
      overview_tab s = Inr t1 \<and> regions_tab s = Inr t2 \<and> language_tab s = Inr t3 \<and>
      traditions_tab s = Inr t4 \<and> worldview_tab s = Inr t5 \<and> design_tab s = Inr t6 \<and>
      map tab_title [t1, t2, t3, t4, t5, t6] =
        [''Informaci'' @ o_acute @ ''n General'', ''Regiones'', ''Idioma'', ''Tradiciones'',
         ''Cosmovisi'' @ o_acute @ ''n'', ''Dise'' @ n_tilde @ ''o Cultural''] \<and>
      create_widgets today s =
        Inr (s\<lparr>title_label := Some ''Pueblo Kichwa del Ecuador'',
               notebook := Some [t1, t2, t3, t4, t5, t6],
               status_label := Some (''Desarrollado para dise'' @ n_tilde @
                  ''o culturalmente sensible | Fecha: '' @ today),
               about_button := Some ''Acerca de''\<rparr>)"
proof -
  obtain t1 where t1: "overview_tab s = Inr t1"
      and n1: "tab_title t1 = ''Informaci'' @ o_acute @ ''n General''"
    using overview_tab_ok [OF d c] by force
  obtain t2 where t2: "regions_tab s = Inr t2" and n2: "tab_title t2 = ''Regiones''"
    using regions_tab_ok [OF d c] by force
  obtain t3 where t3: "language_tab s = Inr t3" and n3: "tab_title t3 = ''Idioma''"
    using language_tab_ok [OF d c] by force
  obtain t4 where t4: "traditions_tab s = Inr t4" and n4: "tab_title t4 = ''Tradiciones''"
    using traditions_tab_ok [OF d c] by force
  obtain t5 where t5: "worldview_tab s = Inr t5"
      and n5: "tab_title t5 = ''Cosmovisi'' @ o_acute @ ''n''"
    using worldview_tab_ok [OF d c] by force
  obtain t6 where t6: "design_tab s = Inr t6"
      and n6: "tab_title t6 = ''Dise'' @ n_tilde @ ''o Cultural''"
    using design_tab_ok [OF d c] by force
  have r1: "overview_tab s' = Inr t1"
    if "kichwa_data s' = kichwa_data s" "colors s' = colors s" for s'
    using overview_tab_reads [OF that] t1 by simp
  have r2: "regions_tab s' = Inr t2"
    if "kichwa_data s' = kichwa_data s" "colors s' = colors s" for s'
    using regions_tab_reads [OF that] t2 by simp
  have r3: "language_tab s' = Inr t3"
    if "kichwa_data s' = kichwa_data s" "colors s' = colors s" for s'
    using language_tab_reads [OF that] t3 by simp
  have r4: "traditions_tab s' = Inr t4"
    if "kichwa_data s' = kichwa_data s" "colors s' = colors s" for s'
    using traditions_tab_reads [OF that] t4 by simp
  have r5: "worldview_tab s' = Inr t5"
    if "kichwa_data s' = kichwa_data s" "colors s' = colors s" for s'
    using worldview_tab_reads [OF that] t5 by simp
  have r6: "design_tab s' = Inr t6"
    if "kichwa_data s' = kichwa_data s" "colors s' = colors s" for s'
    using design_tab_reads [OF that] t6 by simp
  have "create_widgets today s =
        Inr (s\<lparr>title_label := Some ''Pueblo Kichwa del Ecuador'',
               notebook := Some [t1, t2, t3, t4, t5, t6],
               status_label := Some (''Desarrollado para dise'' @ n_tilde @
                  ''o culturalmente sensible | Fecha: '' @ today),
               about_button := Some ''Acerca de''\<rparr>)"
    by (simp add: create_widgets_def create_overview_tab_def create_regions_tab_def
        create_language_tab_def create_traditions_tab_def create_worldview_tab_def
        create_design_tab_def r1 r2 r3 r4 r5 r6)
  with t1 t2 t3 t4 t5 t6 n1 n2 n3 n4 n5 n6 show ?thesis
    by simp
qed

lemma main_is_second_init: "main today = KichwaInfoSystem_init today Tk"
  by (simp add: main_def module_globals_def)

lemma main_ok:
  "\<exists>s t1 t2 t3 t4 t5 t6.
      kichwa_data s = Some load_kichwa_data \<and> colors s = Some colors_literal \<and>
      language_tab s = Inr t3 \<and>
      map tab_title [t1, t2, t3, t4, t5, t6] =
        [''Informaci'' @ o_acute @ ''n General'', ''Regiones'', ''Idioma'', ''Tradiciones'',
         ''Cosmovisi'' @ o_acute @ ''n'', ''Dise'' @ n_tilde @ ''o Cultural''] \<and>
      main today =
        Inr (s\<lparr>title_label := Some ''Pueblo Kichwa del Ecuador'',
               notebook := Some [t1, t2, t3, t4, t5, t6],
               status_label := Some (''Desarrollado para dise'' @ n_tilde @
                  ''o culturalmente sensible | Fecha: '' @ today),
               about_button := Some ''Acerca de''\<rparr>)"
proof -
  define s0 where "s0 =
    \<lparr>root = Tk\<lparr>win_title := Some (''Sistema de Informaci'' @ o_acute @
                                               ''n - Kichwas de Ecuador''),
                           win_geometry := Some ''900x600'',
                           win_minsize := Some (800, 500)\<rparr>,
                 kichwa_data = Some load_kichwa_data,
                 style = None, colors = None, title_label = None, notebook = None,
                 status_label = None, about_button = None\<rparr>"
  obtain s where s: "configure_styles s0 = Inr s" and c: "colors s = Some colors_literal"
      and k: "kichwa_data s = kichwa_data s0"
    using configure_styles_fields [of s0] by blast
  from k have d: "kichwa_data s = Some load_kichwa_data"
    by (simp add: s0_def)
  have m: "main today = create_widgets today s"
    using s by (simp add: main_is_second_init KichwaInfoSystem_init_def s0_def)
  from create_widgets_ok [OF d c, of today] d c m show ?thesis
    by metis
qed

lemma language_tab_has_vocabulary:
  assumes "language_tab s = Inr t"
  shows "\<exists>data lang w. kichwa_data s = Some data \<and> getitem data ''idioma'' = Inr lang \<and>
           vocabulary_table lang = Inr w \<and> w \<in> set (content t) \<and> tab_title t = ''Idioma''"
proof (cases "kichwa_data s")
  case None
  with assms show ?thesis
    by (simp add: language_tab_def then_do_def split: sum.splits)
next
  case (Some data)
  with assms show ?thesis
    unfolding language_tab_def then_do_def
    by (auto split: sum.splits)
qed

lemma vocabulary_frame_rows:
  "map_sum id (\<lambda>w. map (\<lambda>r. grid_row r (children w)) [0, 1, 2, 3, 4, 5, 6, 7, 8, 9, 10])
     vocabulary_frame =
   Inr [[Str (''Espa'' @ n_tilde @ ''ol''), Str ''Kichwa'',
         Str (''Pronunciaci'' @ o_acute @ ''n'')],
        [Str ''Hola'', Str ''Imanalla'', Str ''Imanalla (imanalya)''],
        [Str ''Gracias'', Str ''Yupaychani'', Str ''Yupaychani (yupay-cha-ni)''],
        [Str (''S'' @ i_acute), Str ''Ari'', Str ''Ari''],
        [Str ''No'', Str ''Mana'', Str ''Mana''],
        [Str ''Agua'', Str ''Yaku'', Str ''Yaku''],
        [Str ''Tierra'', Str ''Allpa'', Str ''Alypa''],
        [Str ''Sol'', Str ''Inti'', Str ''Inti''],
        [Str ''Luna'', Str ''Killa'', Str ''Kilya''],
        [Str ''Hombre'', Str ''Kari'', Str ''Kari''],
        [Str ''Mujer'', Str ''Warmi'', Str ''Warmi'']]"
  by (simp add: vocabulary_frame_def vocabulary_table_def load_kichwa_data_def
      vocabulary_row_def unpack3_def vocabulary_headers_def)

lemma vocabulary_frame_is_frame:
  "\<exists>vs. vocabulary_frame = Inr (Frame ''TFrame'' vs)"
  by (simp add: vocabulary_frame_def vocabulary_table_def load_kichwa_data_def
      vocabulary_row_def unpack3_def)

section \<open>The tabs created at start-up\<close>

text \<open>
  C1 (as amended). Starting the application succeeds and leaves exactly six pages in the
  notebook, added in the order overview, regions, language, traditions, worldview,
  design; the pages carry the titles below. This holds whatever the date is.
\<close>

theorem start_creates_six_tabs:
  "map_sum id tab_titles (main today) =
   Inr [''Informaci'' @ o_acute @ ''n General'', ''Regiones'', ''Idioma'', ''Tradiciones'',
        ''Cosmovisi'' @ o_acute @ ''n'', ''Dise'' @ n_tilde @ ''o Cultural'']"
proof -
  obtain s t1 t2 t3 t4 t5 t6 where
    titles: "map tab_title [t1, t2, t3, t4, t5, t6] =
        [''Informaci'' @ o_acute @ ''n General'', ''Regiones'', ''Idioma'', ''Tradiciones'',
         ''Cosmovisi'' @ o_acute @ ''n'', ''Dise'' @ n_tilde @ ''o Cultural'']"
    and m: "main today =
        Inr (s\<lparr>title_label := Some ''Pueblo Kichwa del Ecuador'',
               notebook := Some [t1, t2, t3, t4, t5, t6],
               status_label := Some (''Desarrollado para dise'' @ n_tilde @
                  ''o culturalmente sensible | Fecha: '' @ today),
               about_button := Some ''Acerca de''\<rparr>)"
    using main_ok [of today] by (elim exE conjE) (rule that, assumption+)
  from titles show ?thesis
    by (simp add: m tab_titles_def)
qed

text \<open>The claim as stated asks for seven tabs: the notebook of the started application
  does not have seven pages.\<close>

theorem seven_tabs_counterexample:
  "map_sum id (\<lambda>s. length (tab_titles s)) (main ''03-11-2026'') \<noteq> Inr 7"
proof -
  obtain s t1 t2 t3 t4 t5 t6 where
    m: "main ''03-11-2026'' =
        Inr (s\<lparr>title_label := Some ''Pueblo Kichwa del Ecuador'',
               notebook := Some [t1, t2, t3, t4, t5, t6],
               status_label := Some (''Desarrollado para dise'' @ n_tilde @
                  ''o culturalmente sensible | Fecha: '' @ ''03-11-2026''),
               about_button := Some ''Acerca de''\<rparr>)"
    using main_ok [of "''03-11-2026''"] by (elim exE conjE) (rule that, assumption+)
  show ?thesis
    by (simp add: m tab_titles_def)
qed

section \<open>The topics of the content store\<close>

text \<open>
  C2 (as amended). The content store has exactly six keys, and looking each of them up
  succeeds and gives a topic with a non-empty sequence of sections: 4, 2, 5, 6, 4 and 4
  entries, in the order of the keys.
\<close>

theorem six_topics_have_sections:
  "dict_keys load_kichwa_data =
     [''informacion_general'', ''regiones'', ''idioma'', ''tradiciones'', ''cosmovision'',
      ''diseno_cultural''] \<and>
   map (\<lambda>k. map_sum id (\<lambda>t. length (sections t)) (getitem load_kichwa_data k))
     (dict_keys load_kichwa_data) =
     [Inr 4, Inr 2, Inr 5, Inr 6, Inr 4, Inr 4]"
  by (simp add: load_kichwa_data_def)

text \<open>The claim as stated speaks of seven topic keys: there are no seven distinct keys
  whose lookup in the store succeeds with a non-empty topic.\<close>

theorem seven_topics_counterexample:
  "\<not> (\<exists>ks. length ks = 7 \<and> distinct ks \<and>
         list_all (\<lambda>k. \<exists>t. getitem load_kichwa_data k = Inr t \<and> sections t \<noteq> []) ks)"
proof
  assume "\<exists>ks. length ks = 7 \<and> distinct ks \<and>
         list_all (\<lambda>k. \<exists>t. getitem load_kichwa_data k = Inr t \<and> sections t \<noteq> []) ks"
  then obtain ks where len: "length ks = 7" and dist: "distinct ks"
    and ok: "list_all (\<lambda>k. \<exists>t. getitem load_kichwa_data k = Inr t \<and> sections t \<noteq> []) ks"
    by blast
  from ok have sub: "set ks \<subseteq> set (dict_keys load_kichwa_data)"
    unfolding list_all_iff using getitem_in_keys by blast
  have "card (set ks) \<le> card (set (dict_keys load_kichwa_data))"
    using sub by (intro card_mono) simp_all
  also have "\<dots> \<le> length (dict_keys load_kichwa_data)"
    by (rule card_length)
  also have "\<dots> = 6"
    by (simp add: load_kichwa_data_def)
  finally have "card (set ks) \<le> 6" .
  with dist len show False
    by (simp add: distinct_card)
qed

section \<open>Resolving a style token\<close>

text \<open>
  C3 (as amended). After \<^verbatim>\<open>configure_styles\<close>, whatever the object was before,
  \<^verbatim>\<open>self.colors[name]\<close> gives the registered colour when \<open>name\<close> is one of the six
  registered tokens, and raises \<^verbatim>\<open>KeyError\<close> for every other name: there is no fallback
  to a default token.
\<close>

theorem registered_token_or_KeyError:
  "then_do (configure_styles s0) (\<lambda>s. colors_getitem s name) =
     (if name = ''primary'' then Inr ''#8B2323''
      else if name = ''secondary'' then Inr ''#CD853F''
      else if name = ''accent'' then Inr ''#FFD700''
      else if name = ''background'' then Inr ''#F5F5DC''
      else if name = ''text'' then Inr ''#343e40''
      else if name = ''highlight'' then Inr ''#228B22''
      else Inl (KeyError name))"
proof -
  obtain s where "configure_styles s0 = Inr s" "colors s = Some colors_literal"
    using configure_styles_fields [of s0] by blast
  then show ?thesis
    by (simp add: colors_getitem_literal)
qed

text \<open>The claim as stated promises a default value for an unregistered name: resolving
  \<^verbatim>\<open>'red'\<close> (a name the first class definition subscripts with) raises
  \<^verbatim>\<open>KeyError\<close>.\<close>

theorem unregistered_token_counterexample:
  "then_do (configure_styles (fresh_object Tk)) (\<lambda>s. colors_getitem s ''red'') =
   Inl (KeyError ''red'')"
proof -
  obtain s where "configure_styles (fresh_object Tk) = Inr s" "colors s = Some colors_literal"
    using configure_styles_fields [of "fresh_object Tk"] by blast
  then show ?thesis
    by (simp add: colors_getitem_literal)
qed

section \<open>Looking up an absent topic\<close>

text \<open>
  C4. For an object that holds the content store and a key that is not one of the
  store's keys, \<^verbatim>\<open>self.kichwa_data[key]\<close> raises \<^verbatim>\<open>KeyError\<close> (the program's
  not-found error) with that key and leaves the object, and so the store, as it was: every
  lookup made afterwards gives what it gave before.
\<close>

theorem absent_topic_KeyError:
  assumes "kichwa_data s = Some load_kichwa_data"
    and "key \<notin> set (dict_keys load_kichwa_data)"
  shows "kichwa_data_getitem s key = (Inl (KeyError key), s) \<and>
         kichwa_data_getitem (snd (kichwa_data_getitem s key)) k = kichwa_data_getitem s k"
  using assms by (simp add: kichwa_data_getitem_def load_kichwa_data_def)

text \<open>The key \<^verbatim>\<open>'nonexistent'\<close> on an object at start-up: the lookup fails, and the
  lookup of \<^verbatim>\<open>'idioma'\<close> made after it still succeeds.\<close>

theorem absent_topic_KeyError_witness:
  "kichwa_data_getitem (fresh_object Tk) ''nonexistent'' =
     (Inl (KeyError ''nonexistent''), fresh_object Tk) \<and>
   (\<exists>topic. kichwa_data_getitem (snd (kichwa_data_getitem (fresh_object Tk) ''nonexistent''))
       ''idioma'' = (Inr topic, fresh_object Tk))"
proof -
  have k: "kichwa_data (fresh_object Tk) = Some load_kichwa_data"
    by (simp add: fresh_object_def)
  have a: "''nonexistent'' \<notin> set (dict_keys load_kichwa_data)"
    by (simp add: load_kichwa_data_def)
  have "\<exists>topic. kichwa_data_getitem (fresh_object Tk) ''idioma'' = (Inr topic, fresh_object Tk)"
    by (simp add: kichwa_data_getitem_def k load_kichwa_data_def)
  with absent_topic_KeyError [OF k a, of "''idioma''"] show ?thesis
    by simp
qed

section \<open>The vocabulary table\<close>

text \<open>
  C5. The vocabulary list of the content store has exactly ten rows and each row has
  exactly three entries; the language tab declares three column headers, and the frame
  it builds has three labels in the header row and in each of the ten rows below it.
\<close>

theorem vocabulary_ten_rows_of_three:
  "map_sum id (\<lambda>v. map (\<lambda>row. length (iterate row)) (iterate v)) vocabulario_basico =
     Inr [3, 3, 3, 3, 3, 3, 3, 3, 3, 3] \<and>
   length vocabulary_headers = 3 \<and>
   map_sum id (\<lambda>w. map (\<lambda>r. length (grid_row r (children w)))
                     [0, 1, 2, 3, 4, 5, 6, 7, 8, 9, 10]) vocabulary_frame =
     Inr [3, 3, 3, 3, 3, 3, 3, 3, 3, 3, 3]"
proof -
  have "map_sum id (\<lambda>v. map (\<lambda>row. length (iterate row)) (iterate v)) vocabulario_basico =
     Inr [3, 3, 3, 3, 3, 3, 3, 3, 3, 3]"
    by (simp add: vocabulario_basico_def load_kichwa_data_def)
  moreover have "length vocabulary_headers = 3"
    by (simp add: vocabulary_headers_def)
  moreover have "map_sum id (\<lambda>w. map (\<lambda>r. length (grid_row r (children w)))
                     [0, 1, 2, 3, 4, 5, 6, 7, 8, 9, 10]) vocabulary_frame =
     Inr [3, 3, 3, 3, 3, 3, 3, 3, 3, 3, 3]"
  proof -
    obtain vs where vs: "vocabulary_frame = Inr (Frame ''TFrame'' vs)"
      using vocabulary_frame_is_frame by blast
    from vocabulary_frame_rows show ?thesis
      by (simp add: vs)
  qed
  ultimately show ?thesis
    by simp
qed

text \<open>
  C6. In the started application the page titled \<open>Idioma\<close> contains a frame whose grid
  has, in row 0, the three headers (Spanish, Kichwa, pronunciation, in Spanish) and, in row 1,
  the entries \<open>Hola\<close>, \<open>Imanalla\<close>, \<open>Imanalla (imanalya)\<close>.
\<close>

theorem vocabulary_in_language_tab:
  "\<exists>s nb t vs. main today = Inr s \<and> notebook s = Some nb \<and> t \<in> set nb \<and>
      tab_title t = ''Idioma'' \<and> Frame ''TFrame'' vs \<in> set (content t) \<and>
      grid_row 0 vs = [Str (''Espa'' @ n_tilde @ ''ol''), Str ''Kichwa'',
                       Str (''Pronunciaci'' @ o_acute @ ''n'')] \<and>
      grid_row 1 vs = [Str ''Hola'', Str ''Imanalla'', Str ''Imanalla (imanalya)'']"
proof -
  obtain s t1 t2 t3 t4 t5 t6 where
    d: "kichwa_data s = Some load_kichwa_data"
    and l: "language_tab s = Inr t3"
    and m: "main today =
        Inr (s\<lparr>title_label := Some ''Pueblo Kichwa del Ecuador'',
               notebook := Some [t1, t2, t3, t4, t5, t6],
               status_label := Some (''Desarrollado para dise'' @ n_tilde @
                  ''o culturalmente sensible | Fecha: '' @ today),
               about_button := Some ''Acerca de''\<rparr>)"
    using main_ok [of today] by (elim exE conjE) (rule that, assumption+)
  from language_tab_has_vocabulary [OF l] d obtain lang w where
    "getitem load_kichwa_data ''idioma'' = Inr lang" "vocabulary_table lang = Inr w"
    and w: "w \<in> set (content t3)" and n: "tab_title t3 = ''Idioma''"
    by auto
  then have f: "vocabulary_frame = Inr w"
    by (simp add: vocabulary_frame_def)
  obtain vs where v: "vocabulary_frame = Inr (Frame ''TFrame'' vs)"
    using vocabulary_frame_is_frame by blast
  have vs: "w = Frame ''TFrame'' vs"
    using f unfolding v by simp
  from vocabulary_frame_rows
  have "grid_row 0 vs = [Str (''Espa'' @ n_tilde @ ''ol''), Str ''Kichwa'',
                       Str (''Pronunciaci'' @ o_acute @ ''n'')]"
    and "grid_row 1 vs = [Str ''Hola'', Str ''Imanalla'', Str ''Imanalla (imanalya)'']"
    by (simp_all add: f vs)
  with w n vs m show ?thesis
    by (intro exI [of _ "s\<lparr>title_label := Some ''Pueblo Kichwa del Ecuador'',
               notebook := Some [t1, t2, t3, t4, t5, t6],
               status_label := Some (''Desarrollado para dise'' @ n_tilde @
                  ''o culturalmente sensible | Fecha: '' @ today),
               about_button := Some ''Acerca de''\<rparr>"]
          exI [of _ "[t1, t2, t3, t4, t5, t6]"] exI [of _ t3] exI [of _ vs]) simp
qed

section \<open>Repeated resolution of a token\<close>

text \<open>
  C7. Resolving a token name any number of times in a row gives the same result every
  time, the result of a single \<^verbatim>\<open>self.colors[name]\<close> (a colour or the
  \<^verbatim>\<open>KeyError\<close>), and the object is unchanged after the lookups.
\<close>

theorem colors_read_idempotent:
  "colors_read_repeated n s name = (replicate n (colors_getitem s name), s)"
  by (induction n) (simp_all add: colors_read_def)

section \<open>Rendering twice\<close>

text \<open>
  C8. Two objects that hold the same content store and the same colour tokens, each with
  a new notebook without pages, get the same notebook from each of the six tab builders:
  the same page with the same widgets in the same order and with the same texts, or the
  same exception. Nothing else of the object (its window, its styles, its status bar)
  has an influence.
\<close>

theorem tab_rendering_deterministic:
  assumes "kichwa_data s1 = kichwa_data s2" and "colors s1 = colors s2"
    and "notebook s1 = Some []" and "notebook s2 = Some []"
  shows "map_sum id notebook (create_overview_tab s1) =
           map_sum id notebook (create_overview_tab s2) \<and>
         map_sum id notebook (create_regions_tab s1) =
           map_sum id notebook (create_regions_tab s2) \<and>
         map_sum id notebook (create_language_tab s1) =
           map_sum id notebook (create_language_tab s2) \<and>
         map_sum id notebook (create_traditions_tab s1) =
           map_sum id notebook (create_traditions_tab s2) \<and>
         map_sum id notebook (create_worldview_tab s1) =
           map_sum id notebook (create_worldview_tab s2) \<and>
         map_sum id notebook (create_design_tab s1) =
           map_sum id notebook (create_design_tab s2)"
proof -
  have step: "map_sum id notebook
                (then_do (attr ''notebook'' (notebook s1)) (\<lambda>nb.
                 then_do r (\<lambda>t. Inr (s1\<lparr>notebook := Some (nb @ [t])\<rparr>)))) =
              map_sum id notebook
                (then_do (attr ''notebook'' (notebook s2)) (\<lambda>nb.
                 then_do r (\<lambda>t. Inr (s2\<lparr>notebook := Some (nb @ [t])\<rparr>))))" for r
    using assms(3,4) by (cases r) simp_all
  show ?thesis
    unfolding create_overview_tab_def create_regions_tab_def create_language_tab_def
      create_traditions_tab_def create_worldview_tab_def create_design_tab_def
      overview_tab_reads [OF assms(1,2)] regions_tab_reads [OF assms(1,2)]
      language_tab_reads [OF assms(1,2)] traditions_tab_reads [OF assms(1,2)]
      worldview_tab_reads [OF assms(1,2)] design_tab_reads [OF assms(1,2)]
    by (intro conjI step)
qed

text \<open>Two start-up objects on two different windows: the language tab builder gives both
  the same notebook, which has one page.\<close>

theorem tab_rendering_deterministic_witness:
  "map_sum id notebook (create_language_tab (fresh_object Tk)) =
     map_sum id notebook
       (create_language_tab (fresh_object (Tk\<lparr>win_title := Some ''second window''\<rparr>))) \<and>
   (\<exists>t. map_sum id notebook (create_language_tab (fresh_object Tk)) = Inr (Some [t]))"
proof -
  have "\<exists>t. language_tab (fresh_object Tk) = Inr t"
    using language_tab_ok [of "fresh_object Tk"] by (auto simp: fresh_object_def)
  then have "\<exists>t. map_sum id notebook (create_language_tab (fresh_object Tk)) = Inr (Some [t])"
    by (auto simp: create_language_tab_def fresh_object_def)
  with tab_rendering_deterministic [of "fresh_object Tk"
      "fresh_object (Tk\<lparr>win_title := Some ''second window''\<rparr>)"]
  show ?thesis
    by (simp add: fresh_object_def)
qed

section \<open>The colour keys parse\<close>

text \<open>
  C9. Every key of \<^verbatim>\<open>significado_colores\<close> splits on a single space into exactly two
  parts, so neither \<^verbatim>\<open>color.split(' ')[0]\<close> nor \<^verbatim>\<open>color.split(' ')[1]\<close> is out of range,
  and the parse gives the Spanish and the Kichwa name of each of the six colours
  (\<open>Rojo\<close> and \<open>Puka\<close> from \<open>Rojo (Puka)\<close>).
\<close>

theorem color_keys_parse:
  "map_sum id (map (\<lambda>kv. (length (py_split CHR '' '' (fst kv)), color_names (fst kv))))
     significado_colores =
   Inr [(2, Inr (''Rojo'', ''Puka'')),
        (2, Inr (''Dorado/Amarillo'', ''Killu'')),
        (2, Inr (''Azul'', ''Ankas'')),
        (2, Inr (''Verde'', ''Waylla'')),
        (2, Inr (''Negro'', ''Yana'')),
        (2, Inr (''Blanco'', ''Yurak''))]"
  by (simp add: significado_colores_eval color_names_def index_def py_strip_def)

section \<open>The two class definitions\<close>

text \<open>
  C10. After the module's two class statements the name \<^verbatim>\<open>KichwaInfoSystem\<close> is bound to
  the second class, so \<^verbatim>\<open>main\<close> runs the second \<^verbatim>\<open>__init__\<close>, and it succeeds: no
  \<^verbatim>\<open>KeyError\<close> (and no other exception) is raised at start-up, for any date. The first
  definition is not run: its \<^verbatim>\<open>__init__\<close> would stop with \<^verbatim>\<open>AttributeError\<close>, and its
  \<^verbatim>\<open>configure_styles\<close> would raise \<^verbatim>\<open>KeyError('#8B2323')\<close> on any object.
\<close>

theorem second_definition_runs:
  "module_globals ''KichwaInfoSystem'' = Some Second \<and>
   main today = KichwaInfoSystem_init today Tk \<and>
   (\<exists>s. main today = Inr s) \<and>
   KichwaInfoSystem_first_init w = Inl (AttributeError ''load_kichwa_data'') \<and>
   configure_styles_first s' = Inl (KeyError ''#8B2323'')"
proof -
  have "module_globals ''KichwaInfoSystem'' = Some Second"
    by (simp add: module_globals_def)
  moreover have "\<exists>s. main today = Inr s"
    using main_ok [of today] by blast
  moreover have "KichwaInfoSystem_first_init w = Inl (AttributeError ''load_kichwa_data'')"
    by (simp add: KichwaInfoSystem_first_init_def first_methods_def)
  moreover have "configure_styles_first s' = Inl (KeyError ''#8B2323'')"
    by (simp add: configure_styles_first_def Let_def colors_getitem_def
        colors_literal_first_def)
  ultimately show ?thesis
    by (simp add: main_is_second_init)
qed

end
